theory Spec2Isabelle
  imports Main
begin

section \<open>JavaScript values\<close>

text \<open>
  The flags of the command line, the values read from a preference container and the
  themes are untyped JavaScript values (\<^verbatim>\<open>flags: { [name: string]: any }\<close>,
  \<^verbatim>\<open>getConfig(...): any\<close>). Numbers are restricted to the integers that
  JavaScript prints in plain decimal digits (no NaN, no fractions, magnitude below
  \<open>10\<^sup>2\<^sup>1\<close>); a character is a code unit below 256; an object is the list of its own
  properties; \<open>JBuiltin k\<close> is the function \<open>k\<close> that every plain object inherits from
  \<^verbatim>\<open>Object.prototype\<close>.
\<close>

datatype jsval =
    JUndefined
  | JNull
  | JBool bool
  | JNum int
  | JStr string
  | JObj "(string \<times> jsval) list"
  | JBuiltin string

text \<open>\<^verbatim>\<open>Boolean(v)\<close>, \<^verbatim>\<open>!v\<close>, and the test of \<^verbatim>\<open>a || b\<close> and \<^verbatim>\<open>c ? a : b\<close>.\<close>

fun truthy :: "jsval \<Rightarrow> bool" where
  "truthy JUndefined = False"
| "truthy JNull = False"
| "truthy (JBool b) = b"
| "truthy (JNum n) = (n \<noteq> 0)"
| "truthy (JStr s) = (s \<noteq> [])"
| "truthy (JObj kvs) = True"
| "truthy (JBuiltin k) = True"

definition js_or :: "jsval \<Rightarrow> jsval \<Rightarrow> jsval" where
  "js_or a b = (if truthy a then a else b)"

fun show_nat :: "nat \<Rightarrow> string" where
  "show_nat n =
     (if n < 10 then [char_of (48 + n)]
      else show_nat (n div 10) @ [char_of (48 + n mod 10)])"

declare show_nat.simps [simp del]

definition show_int :: "int \<Rightarrow> string" where
  "show_int i = (if i < 0 then CHR ''-'' # show_nat (nat (- i)) else show_nat (nat i))"

text \<open>\<^verbatim>\<open>String(v)\<close>, which is also the property key that \<^verbatim>\<open>v in obj\<close> and
  \<^verbatim>\<open>obj[v]\<close> look up.\<close>

fun to_string :: "jsval \<Rightarrow> string" where
  "to_string JUndefined = ''undefined''"
| "to_string JNull = ''null''"
| "to_string (JBool b) = (if b then ''true'' else ''false'')"
| "to_string (JNum n) = show_int n"
| "to_string (JStr s) = s"
| "to_string (JObj kvs) = ''[object Object]''"
| "to_string (JBuiltin k) = ''function '' @ k @ ''() { [native code] }''"

definition object_prototype_keys :: "string list" where
  "object_prototype_keys =
     [''constructor'', ''__defineGetter__'', ''__defineSetter__'', ''hasOwnProperty'',
      ''__lookupGetter__'', ''__lookupSetter__'', ''isPrototypeOf'',
      ''propertyIsEnumerable'', ''toString'', ''valueOf'', ''__proto__'',
      ''toLocaleString'']"

text \<open>\<^verbatim>\<open>Object.prototype\<close> itself, which \<^verbatim>\<open>obj.__proto__\<close> gives: an object that
  owns the inherited functions.\<close>

definition Object_prototype :: jsval where
  "Object_prototype =
     JObj (map (\<lambda>k. (k, JBuiltin k)) (filter (\<lambda>k. k \<noteq> ''__proto__'') object_prototype_keys))"

text \<open>\<^verbatim>\<open>key in obj\<close> for a plain object with the own properties \<open>kvs\<close>: own and
  inherited keys both count.\<close>

definition js_in :: "jsval \<Rightarrow> (string \<times> 'a) list \<Rightarrow> bool" where
  "js_in key kvs =
     (to_string key \<in> set (map fst kvs) \<or> to_string key \<in> set object_prototype_keys)"

text \<open>\<^verbatim>\<open>parseInt(v, 10)\<close>: leading white space (among the code units below 256:
  space, tab, line feed, vertical tab, form feed, carriage return and the no-break space
  U+00A0), an optional sign, then decimal digits; \<open>None\<close> is NaN.\<close>

definition is_space :: "char \<Rightarrow> bool" where
  "is_space c =
     (c \<in> set [CHR '' '', CHR 0x09, CHR 0x0A, CHR 0x0B, CHR 0x0C, CHR 0x0D, CHR 0xA0])"

definition is_digit :: "char \<Rightarrow> bool" where
  "is_digit c = ((48::nat) \<le> of_char c \<and> (of_char c :: nat) \<le> 57)"

definition digits_value :: "string \<Rightarrow> int" where
  "digits_value ds = foldl (\<lambda>acc c. 10 * acc + (int (of_char c :: nat) - 48)) 0 ds"

definition parseInt :: "jsval \<Rightarrow> int option" where
  "parseInt v =
     (let s = dropWhile is_space (to_string v);
          neg = (s \<noteq> [] \<and> hd s = CHR ''-'');
          body = (if s \<noteq> [] \<and> (hd s = CHR ''-'' \<or> hd s = CHR ''+'') then tl s else s);
          ds = takeWhile is_digit body
      in if ds = [] then None
         else Some (if neg then - digits_value ds else digits_value ds))"

section \<open>Errors\<close>

text \<open>
  \<open>UsageError\<close> is an error built by \<^verbatim>\<open>cliError\<close>: it carries \<^verbatim>\<open>help\<close>, so
  \<^verbatim>\<open>withCli\<close> prints the help and the message and exits with status 1. Every other
  error is rethrown by \<^verbatim>\<open>withCli\<close> as it is.
\<close>

datatype usage =
    NoInput
  | Malformed "(string \<times> jsval) list"
  | NotTogether "string list"
  | UnknownTerm jsval
  | FileNotFound jsval

datatype error =
    UsageError usage
  | TypeError string
  | UnknownParser jsval
  | IOError string
  | External string

section \<open>The path module (POSIX)\<close>

fun split_slash :: "string \<Rightarrow> string list" where
  "split_slash [] = [[]]"
| "split_slash (c # cs) =
     (if c = CHR ''/'' then [] # split_slash cs
      else (case split_slash cs of seg # segs \<Rightarrow> (c # seg) # segs | [] \<Rightarrow> [[c]]))"

fun join_slash :: "string list \<Rightarrow> string" where
  "join_slash [] = []"
| "join_slash [s] = s"
| "join_slash (s # t # ss) = s @ CHR ''/'' # join_slash (t # ss)"

text \<open>The stack of segments is kept reversed.\<close>

fun normalizeString :: "bool \<Rightarrow> string list \<Rightarrow> string list \<Rightarrow> string list" where
  "normalizeString allowAboveRoot acc [] = rev acc"
| "normalizeString allowAboveRoot acc (seg # segs) =
     (if seg = [] \<or> seg = ''.'' then normalizeString allowAboveRoot acc segs
      else if seg = ''..'' then
        (case acc of
           prev # rest \<Rightarrow>
             (if prev \<noteq> ''..'' then normalizeString allowAboveRoot rest segs
              else if allowAboveRoot then normalizeString allowAboveRoot (seg # acc) segs
              else normalizeString allowAboveRoot acc segs)
         | [] \<Rightarrow>
             (if allowAboveRoot then normalizeString allowAboveRoot (seg # acc) segs
              else normalizeString allowAboveRoot acc segs))
      else normalizeString allowAboveRoot (seg # acc) segs)"

definition normalize :: "string \<Rightarrow> string" where
  "normalize p =
     (if p = [] then ''.''
      else
        let isAbsolute = (hd p = CHR ''/'');
            trailingSeparator = (last p = CHR ''/'');
            q = join_slash (normalizeString (\<not> isAbsolute) [] (split_slash p));
            q1 = (if q = [] \<and> \<not> isAbsolute then ''.'' else q);
            q2 = (if q1 \<noteq> [] \<and> trailingSeparator then q1 @ ''/'' else q1)
        in if isAbsolute then CHR ''/'' # q2 else q2)"

text \<open>\<^verbatim>\<open>path.join(a, b)\<close>; an argument that is not a string is a TypeError.\<close>

definition path_join :: "string \<Rightarrow> jsval \<Rightarrow> error + string" where
  "path_join a b =
     (case b of
        JStr s \<Rightarrow>
          (let joined = join_slash (filter (\<lambda>x. x \<noteq> []) [a, s])
           in Inr (if joined = [] then ''.'' else normalize joined))
      | _ \<Rightarrow> Inl (TypeError ''Path must be a string''))"

text \<open>\<^verbatim>\<open>path.resolve(a, b)\<close> for an absolute \<open>a\<close>, which is also how the file
  system reads a relative path from the directory \<open>a\<close>.\<close>

definition path_resolve :: "string \<Rightarrow> string \<Rightarrow> string" where
  "path_resolve a b =
     (let full = (if b \<noteq> [] \<and> hd b = CHR ''/'' then b else a @ CHR ''/'' # b)
      in CHR ''/'' # join_slash (normalizeString False [] (split_slash full)))"

section \<open>The process, the file system and the libraries\<close>

datatype fsnode = File string | Dir

datatype parser =
    P_iterm2 | P_konsole | P_remmina | P_terminal | P_terminator
  | P_termite | P_tilda | P_xfce | P_xresources | P_xterm

record render_opts =
  ro_height :: jsval
  ro_theme :: jsval
  ro_width :: jsval
  ro_window :: bool

text \<open>
  Everything the program reads from outside. \<open>fs\<close> maps an absolute, normalised path
  to what is there. \<open>TermSchemes\<close> is the string enum of the package term-schemes
  (member name, member value), which is not part of this repository; \<open>run_parser\<close>,
  \<open>bplist_parse\<close> (the first element of \<^verbatim>\<open>bplistParser.parseBuffer\<close>),
  \<open>plist_build\<close> and \<open>render\<close> are the library functions the program calls;
  \<open>prim_get\<close> is the property read on a value that is not an object, which never
  throws.
\<close>

record world =
  platform :: string
  TERM_PROGRAM :: "string option"
  cwd :: string
  homedir :: string
  fs :: "string \<Rightarrow> fsnode option"
  TermSchemes :: "(string \<times> string) list"
  run_parser :: "parser \<Rightarrow> string \<Rightarrow> error + jsval"
  bplist_parse :: "string \<Rightarrow> error + jsval"
  plist_build :: "jsval \<Rightarrow> error + string"
  prim_get :: "jsval \<Rightarrow> string \<Rightarrow> jsval"
  render :: "string \<Rightarrow> render_opts \<Rightarrow> error + string"

definition fs_stat :: "world \<Rightarrow> string \<Rightarrow> fsnode option" where
  "fs_stat w p =
     (if p = [] then None
      else
        let n = fs w (path_resolve (cwd w) p)
        in if last p = CHR ''/'' \<and> n \<noteq> Some Dir then None else n)"

definition existsSync :: "world \<Rightarrow> string \<Rightarrow> bool" where
  "existsSync w p = (fs_stat w p \<noteq> None)"

definition readFileSync :: "world \<Rightarrow> string \<Rightarrow> error + string" where
  "readFileSync w p =
     (case fs_stat w p of
        Some (File c) \<Rightarrow> Inr c
      | Some Dir \<Rightarrow> Inl (IOError p)
      | None \<Rightarrow> Inl (IOError p))"

text \<open>
  \<^verbatim>\<open>obj[key]\<close>. Reading a property of undefined or null throws. An object is a
  plain object (the parsers of property lists build them with an object literal), so a
  key it does not own is looked up in \<^verbatim>\<open>Object.prototype\<close>.
\<close>

definition js_get :: "world \<Rightarrow> jsval \<Rightarrow> string \<Rightarrow> error + jsval" where
  "js_get w obj k =
     (case obj of
        JUndefined \<Rightarrow> Inl (TypeError ''Cannot read property of undefined'')
      | JNull \<Rightarrow> Inl (TypeError ''Cannot read property of null'')
      | JObj kvs \<Rightarrow>
          Inr (case map_of kvs k of
                 Some v \<Rightarrow> v
               | None \<Rightarrow>
                   if k = ''__proto__'' then Object_prototype
                   else if k \<in> set object_prototype_keys then JBuiltin k
                   else JUndefined)
      | _ \<Rightarrow> Inr (prim_get w obj k))"

text \<open>\<^verbatim>\<open>Enum.member\<close> of a compiled string enum.\<close>

definition enum_member :: "(string \<times> string) list \<Rightarrow> string \<Rightarrow> jsval" where
  "enum_member e k = (case map_of e k of Some v \<Rightarrow> JStr v | None \<Rightarrow> JUndefined)"

section \<open>The program\<close>

text \<open>\<^verbatim>\<open>cli.flags\<close>: \<open>fl k = None\<close> when \<^verbatim>\<open>k in cli.flags\<close> is false.\<close>

type_synonym flags = "string \<Rightarrow> jsval option"

definition in_flags :: "flags \<Rightarrow> string \<Rightarrow> bool" where
  "in_flags fl k = (fl k \<noteq> None)"

definition flag :: "flags \<Rightarrow> string \<Rightarrow> jsval" where
  "flag fl k = (case fl k of Some v \<Rightarrow> v | None \<Rightarrow> JUndefined)"

definition DetectableTerminals :: "(string \<times> string) list" where
  "DetectableTerminals = [(''iterm2'', ''iterm2''), (''terminal'', ''terminal'')]"

abbreviation DT_iterm2 :: jsval where
  "DT_iterm2 \<equiv> JStr ''iterm2''"

abbreviation DT_terminal :: jsval where
  "DT_terminal \<equiv> JStr ''terminal''"

text \<open>\<^verbatim>\<open>interface Guesses\<close>, with the two keys the program stores.\<close>

record guesses =
  g_term :: jsval
  g_profile :: jsval

text \<open>\<^verbatim>\<open>bplistParser.parseBuffer(sander.readFileSync(os.homedir(), rel))[0]\<close>\<close>

definition read_config :: "world \<Rightarrow> string \<Rightarrow> error + jsval" where
  "read_config w rel =
     (case readFileSync w (homedir w @ CHR ''/'' # rel) of
        Inl e \<Rightarrow> Inl e
      | Inr file \<Rightarrow> bplist_parse w file)"

definition getConfig :: "world \<Rightarrow> jsval \<Rightarrow> error + jsval" where
  "getConfig w trm =
     (if trm = DT_terminal then read_config w ''Library/Preferences/com.apple.terminal.plist''
      else if trm = DT_iterm2 then
        read_config w ''Library/Preferences/com.googlecode.iterm2.plist''
      else Inr JNull)"

definition getPresets :: "world \<Rightarrow> jsval \<Rightarrow> error + jsval" where
  "getPresets w trm =
     (case getConfig w trm of
        Inl e \<Rightarrow> Inl e
      | Inr config \<Rightarrow>
          if trm = DT_terminal then js_get w config ''Window Settings''
          else if trm = DT_iterm2 then js_get w config ''Custom Color Presets''
          else Inr JNull)"

definition guessProfile :: "world \<Rightarrow> jsval \<Rightarrow> error + jsval" where
  "guessProfile w trm =
     (if platform w \<noteq> ''darwin'' then Inr JNull
      else
        case getConfig w trm of
          Inl e \<Rightarrow> Inl e
        | Inr config \<Rightarrow>
            if \<not> truthy config then Inr JNull
            else if trm = DT_terminal then js_get w config ''Default Window Settings''
            else if trm = DT_iterm2 then
              (case js_get w config ''Custom Color Presets'' of
                 Inl e \<Rightarrow> Inl e
               | Inr presets \<Rightarrow> Inr JNull)
            else Inr JNull)"

definition guessTerminal :: "world \<Rightarrow> jsval" where
  "guessTerminal w =
     (if platform w \<noteq> ''darwin'' then JUndefined
      else if TERM_PROGRAM w = Some ''iTerm.app'' then DT_iterm2
      else if TERM_PROGRAM w = Some ''Apple_Terminal'' then DT_terminal
      else JNull)"

definition getParser :: "world \<Rightarrow> jsval \<Rightarrow> error + parser" where
  "getParser w trm =
     (if trm = enum_member (TermSchemes w) ''iterm2'' then Inr P_iterm2
      else if trm = enum_member (TermSchemes w) ''konsole'' then Inr P_konsole
      else if trm = enum_member (TermSchemes w) ''remmina'' then Inr P_remmina
      else if trm = enum_member (TermSchemes w) ''terminal'' then Inr P_terminal
      else if trm = enum_member (TermSchemes w) ''terminator'' then Inr P_terminator
      else if trm = enum_member (TermSchemes w) ''termite'' then Inr P_termite
      else if trm = enum_member (TermSchemes w) ''tilda'' then Inr P_tilda
      else if trm = enum_member (TermSchemes w) ''xcfe'' then Inr P_xfce
      else if trm = enum_member (TermSchemes w) ''xresources'' then Inr P_xresources
      else if trm = enum_member (TermSchemes w) ''xterm'' then Inr P_xterm
      else Inl (UnknownParser trm))"

text \<open>
  \<^verbatim>\<open>const p = profile || ''; ['~', '/', '.'].indexOf(p.charAt(0)) > -1\<close>, as in main
  and in getTheme. A truthy value that is not a string has no \<^verbatim>\<open>charAt\<close>.
\<close>

definition isFileProfile :: "jsval \<Rightarrow> error + bool" where
  "isFileProfile profile =
     (case js_or profile (JStr []) of
        JStr p \<Rightarrow> Inr (take 1 p \<in> set [''~'', ''/'', ''.''])
      | _ \<Rightarrow> Inl (TypeError ''p.charAt is not a function''))"

definition parseTheme :: "world \<Rightarrow> jsval \<Rightarrow> jsval \<Rightarrow> error + jsval" where
  "parseTheme w trm input =
     (case getParser w trm of
        Inl e \<Rightarrow> Inl e
      | Inr prs \<Rightarrow>
          (case input of
             JStr path \<Rightarrow>
               (case readFileSync w path of
                  Inl e \<Rightarrow> Inl e
                | Inr content \<Rightarrow> run_parser w prs content)
           | _ \<Rightarrow> Inl (TypeError ''path must be a string'')))"

definition extractTheme :: "world \<Rightarrow> jsval \<Rightarrow> jsval \<Rightarrow> error + jsval" where
  "extractTheme w trm name =
     (if \<not> js_in trm DetectableTerminals then Inr JNull
      else if platform w \<noteq> ''darwin'' then Inr JNull
      else
        case getPresets w trm of
          Inl e \<Rightarrow> Inl e
        | Inr presets \<Rightarrow>
            (case js_get w presets (to_string name) of
               Inl e \<Rightarrow> Inl e
             | Inr theme \<Rightarrow>
                 (case getParser w trm of
                    Inl e \<Rightarrow> Inl e
                  | Inr prs \<Rightarrow>
                      if \<not> truthy theme then Inr JNull
                      else if trm = DT_iterm2 \<or> trm = DT_terminal then
                        (case plist_build w theme of
                           Inl e \<Rightarrow> Inl e
                         | Inr xml \<Rightarrow> run_parser w prs xml)
                      else Inr JNull)))"

definition getTheme :: "world \<Rightarrow> guesses \<Rightarrow> error + jsval" where
  "getTheme w guess =
     (if g_term guess = JNull \<or> g_profile guess = JNull then Inr JNull
      else
        case isFileProfile (g_profile guess) of
          Inl e \<Rightarrow> Inl e
        | Inr isFile \<Rightarrow>
            if isFile then parseTheme w (g_term guess) (g_profile guess)
            else extractTheme w (g_term guess) (g_profile guess))"

definition toNumber :: "jsval \<Rightarrow> jsval" where
  "toNumber input =
     (if \<not> truthy input then JNull
      else case parseInt input of None \<Rightarrow> JNull | Some candidate \<Rightarrow> JNum candidate)"

text \<open>Lines 76 to 82 of main: the detected values come first, the flags second.\<close>

definition resolveGuess :: "world \<Rightarrow> flags \<Rightarrow> error + guesses" where
  "resolveGuess w fl =
     (let trm = js_or (guessTerminal w) (flag fl ''term'')
      in if truthy trm then
           (case guessProfile w trm of
              Inl e \<Rightarrow> Inl e
            | Inr guessed \<Rightarrow>
                Inr \<lparr>g_term = trm, g_profile = js_or guessed (flag fl ''profile'')\<rparr>)
         else Inr \<lparr>g_term = trm, g_profile = flag fl ''profile''\<rparr>)"

text \<open>\<^verbatim>\<open>ensure(['height', 'width'], ...)\<close>: the flags that are present and not a number.\<close>

definition malformed :: "flags \<Rightarrow> (string \<times> jsval) list" where
  "malformed fl =
     map (\<lambda>name. (name, flag fl name))
       (filter (\<lambda>name. in_flags fl name \<and> parseInt (flag fl name) = None)
          [''height'', ''width''])"

text \<open>\<^verbatim>\<open>['term', 'profile'].filter(n => !Boolean(guess[n]))\<close>\<close>

definition unsatisfied :: "guesses \<Rightarrow> string list" where
  "unsatisfied guess =
     (if \<not> truthy (g_term guess) then [''term''] else [])
     @ (if \<not> truthy (g_profile guess) then [''profile''] else [])"

text \<open>\<^verbatim>\<open>ensure(['term'], ...)\<close>: the term flag is present and no key of TermSchemes.\<close>

definition unknown :: "world \<Rightarrow> flags \<Rightarrow> bool" where
  "unknown w fl = (in_flags fl ''term'' \<and> \<not> js_in (flag fl ''term'') (TermSchemes w))"

text \<open>Lines 108 to 113 of main.\<close>

definition checkProfileFile :: "world \<Rightarrow> flags \<Rightarrow> bool \<Rightarrow> error + unit" where
  "checkProfileFile w fl isFile =
     (if isFile \<and> in_flags fl ''profile'' then
        (case path_join (cwd w) (flag fl ''profile'') of
           Inl e \<Rightarrow> Inl e
         | Inr checked \<Rightarrow>
             if \<not> existsSync w checked then Inl (UsageError (FileNotFound (flag fl ''profile'')))
             else Inr ())
      else Inr ())"

datatype outcome = WriteFile jsval string | Stdout string

text \<open>Lines 117 to 128 of main: render, then write the file or standard output.\<close>

definition renderOutput :: "world \<Rightarrow> flags \<Rightarrow> string \<Rightarrow> jsval \<Rightarrow> error + outcome" where
  "renderOutput w fl input theme =
     (case render w input
             \<lparr>ro_height = toNumber (flag fl ''height''),
              ro_theme = theme,
              ro_width = toNumber (flag fl ''width''),
              ro_window = truthy (flag fl ''frame'')\<rparr> of
        Inl e \<Rightarrow> Inl e
      | Inr svg \<Rightarrow>
          Inr (if in_flags fl ''out'' then WriteFile (flag fl ''out'') svg else Stdout svg))"

text \<open>
  main, from line 56 on: \<open>input\<close> is the text that \<^verbatim>\<open>await getInput(cli)\<close> gave. The
  result is the error main throws, or the output it hands over.
\<close>

definition main :: "world \<Rightarrow> flags \<Rightarrow> string \<Rightarrow> error + outcome" where
  "main w fl input =
     (if input = [] then Inl (UsageError NoInput)
      else if malformed fl \<noteq> [] then Inl (UsageError (Malformed (malformed fl)))
      else
        case resolveGuess w fl of
          Inl e \<Rightarrow> Inl e
        | Inr guess \<Rightarrow>
            if (in_flags fl ''term'' \<or> in_flags fl ''profile'') \<and> unsatisfied guess \<noteq> []
            then Inl (UsageError (NotTogether (unsatisfied guess)))
            else if unknown w fl then Inl (UsageError (UnknownTerm (flag fl ''term'')))
            else
              (case isFileProfile (g_profile guess) of
                 Inl e \<Rightarrow> Inl e
               | Inr isFile \<Rightarrow>
                   (case checkProfileFile w fl isFile of
                      Inl e \<Rightarrow> Inl e
                    | Inr _ \<Rightarrow>
                        (case getTheme w guess of
                           Inl e \<Rightarrow> Inl e
                         | Inr theme \<Rightarrow> renderOutput w fl input theme))))"

section \<open>The resolver with the machine threaded through\<close>

text \<open>
  The functions above read the machine and return a value. To see what an evaluation
  leaves behind, the same functions are written once more with the machine passed
  through every operation: an operation takes the machine and returns its result
  together with the machine after it. Reading the platform, the environment or a file
  and calling a library return the machine as it was; \<^verbatim>\<open>sander.writeFile\<close>, which
  main uses for its output (line 125), returns a machine with another file system.
\<close>

type_synonym 'a st = "world \<Rightarrow> (error + 'a) \<times> world"

definition return_st :: "'a \<Rightarrow> 'a st" where
  "return_st x = (\<lambda>w. (Inr x, w))"

definition throw_st :: "error \<Rightarrow> 'a st" where
  "throw_st e = (\<lambda>w. (Inl e, w))"

definition bind_st :: "'a st \<Rightarrow> ('a \<Rightarrow> 'b st) \<Rightarrow> 'b st" where
  "bind_st m f = (\<lambda>w. case m w of (Inl e, w') \<Rightarrow> (Inl e, w') | (Inr x, w') \<Rightarrow> f x w')"

definition os_platform :: "string st" where
  "os_platform = (\<lambda>w. (Inr (platform w), w))"

definition process_env_TERM_PROGRAM :: "string option st" where
  "process_env_TERM_PROGRAM = (\<lambda>w. (Inr (TERM_PROGRAM w), w))"

definition fs_readFileSync :: "string \<Rightarrow> string st" where
  "fs_readFileSync p = (\<lambda>w. (readFileSync w p, w))"

definition sander_readFileSync_home :: "string \<Rightarrow> string st" where
  "sander_readFileSync_home rel = (\<lambda>w. (readFileSync w (homedir w @ CHR ''/'' # rel), w))"

definition sander_writeFile :: "string \<Rightarrow> string \<Rightarrow> unit st" where
  "sander_writeFile p content =
     (\<lambda>w. (Inr (), w\<lparr>fs := (fs w)(path_resolve (cwd w) p := Some (File content))\<rparr>))"

definition bplistParser_parseBuffer :: "string \<Rightarrow> jsval st" where
  "bplistParser_parseBuffer file = (\<lambda>w. (bplist_parse w file, w))"

definition plist_build_st :: "jsval \<Rightarrow> string st" where
  "plist_build_st v = (\<lambda>w. (plist_build w v, w))"

definition run_parser_st :: "parser \<Rightarrow> string \<Rightarrow> jsval st" where
  "run_parser_st prs content = (\<lambda>w. (run_parser w prs content, w))"

definition js_get_st :: "jsval \<Rightarrow> string \<Rightarrow> jsval st" where
  "js_get_st obj k = (\<lambda>w. (js_get w obj k, w))"

definition getParser_st :: "jsval \<Rightarrow> parser st" where
  "getParser_st trm = (\<lambda>w. (getParser w trm, w))"

definition getConfig_st :: "jsval \<Rightarrow> jsval st" where
  "getConfig_st trm =
     (if trm = DT_terminal then
        bind_st (sander_readFileSync_home ''Library/Preferences/com.apple.terminal.plist'')
          bplistParser_parseBuffer
      else if trm = DT_iterm2 then
        bind_st (sander_readFileSync_home ''Library/Preferences/com.googlecode.iterm2.plist'')
          bplistParser_parseBuffer
      else return_st JNull)"

definition getPresets_st :: "jsval \<Rightarrow> jsval st" where
  "getPresets_st trm =
     bind_st (getConfig_st trm) (\<lambda>config.
       if trm = DT_terminal then js_get_st config ''Window Settings''
       else if trm = DT_iterm2 then js_get_st config ''Custom Color Presets''
       else return_st JNull)"

definition guessProfile_st :: "jsval \<Rightarrow> jsval st" where
  "guessProfile_st trm =
     bind_st os_platform (\<lambda>pf.
       if pf \<noteq> ''darwin'' then return_st JNull
       else
         bind_st (getConfig_st trm) (\<lambda>config.
           if \<not> truthy config then return_st JNull
           else if trm = DT_terminal then js_get_st config ''Default Window Settings''
           else if trm = DT_iterm2 then
             bind_st (js_get_st config ''Custom Color Presets'') (\<lambda>presets. return_st JNull)
           else return_st JNull))"

definition guessTerminal_st :: "jsval st" where
  "guessTerminal_st =
     bind_st os_platform (\<lambda>pf.
       if pf \<noteq> ''darwin'' then return_st JUndefined
       else
         bind_st process_env_TERM_PROGRAM (\<lambda>prog.
           if prog = Some ''iTerm.app'' then return_st DT_iterm2
           else if prog = Some ''Apple_Terminal'' then return_st DT_terminal
           else return_st JNull))"

definition parseTheme_st :: "jsval \<Rightarrow> jsval \<Rightarrow> jsval st" where
  "parseTheme_st trm input =
     bind_st (getParser_st trm) (\<lambda>prs.
       case input of
         JStr path \<Rightarrow> bind_st (fs_readFileSync path) (\<lambda>content. run_parser_st prs content)
       | _ \<Rightarrow> throw_st (TypeError ''path must be a string''))"

definition extractTheme_st :: "jsval \<Rightarrow> jsval \<Rightarrow> jsval st" where
  "extractTheme_st trm name =
     (if \<not> js_in trm DetectableTerminals then return_st JNull
      else
        bind_st os_platform (\<lambda>pf.
          if pf \<noteq> ''darwin'' then return_st JNull
          else
            bind_st (getPresets_st trm) (\<lambda>presets.
              bind_st (js_get_st presets (to_string name)) (\<lambda>theme.
                bind_st (getParser_st trm) (\<lambda>prs.
                  if \<not> truthy theme then return_st JNull
                  else if trm = DT_iterm2 \<or> trm = DT_terminal then
                    bind_st (plist_build_st theme) (\<lambda>xml. run_parser_st prs xml)
                  else return_st JNull)))))"

definition getTheme_st :: "guesses \<Rightarrow> jsval st" where
  "getTheme_st guess =
     (if g_term guess = JNull \<or> g_profile guess = JNull then return_st JNull
      else
        case isFileProfile (g_profile guess) of
          Inl e \<Rightarrow> throw_st e
        | Inr isFile \<Rightarrow>
            if isFile then parseTheme_st (g_term guess) (g_profile guess)
            else extractTheme_st (g_term guess) (g_profile guess))"

definition resolveGuess_st :: "flags \<Rightarrow> guesses st" where
  "resolveGuess_st fl =
     bind_st guessTerminal_st (\<lambda>detected.
       let trm = js_or detected (flag fl ''term'')
       in if truthy trm then
            bind_st (guessProfile_st trm) (\<lambda>guessed.
              return_st \<lparr>g_term = trm, g_profile = js_or guessed (flag fl ''profile'')\<rparr>)
          else return_st \<lparr>g_term = trm, g_profile = flag fl ''profile''\<rparr>)"

text \<open>Lines 76 to 82 and line 115 of main in a row: the pair, then its theme.\<close>

definition resolve_st :: "flags \<Rightarrow> jsval st" where
  "resolve_st fl = bind_st (resolveGuess_st fl) getTheme_st"

text \<open>An operation evaluated twice in a row: both results and the machine left at the
  end.\<close>

definition twice :: "'a st \<Rightarrow> world \<Rightarrow> (error + 'a) \<times> (error + 'a) \<times> world" where
  "twice m w = (case m w of (r1, w1) \<Rightarrow> (case m w1 of (r2, w2) \<Rightarrow> (r1, r2, w2)))"

text \<open>Two machines on which the resolver reads the same: everything but the renderer
  agrees.\<close>

definition same_snapshot :: "world \<Rightarrow> world \<Rightarrow> bool" where
  "same_snapshot w w' =
     (platform w' = platform w \<and> TERM_PROGRAM w' = TERM_PROGRAM w \<and> cwd w' = cwd w
      \<and> homedir w' = homedir w \<and> fs w' = fs w \<and> TermSchemes w' = TermSchemes w
      \<and> run_parser w' = run_parser w \<and> bplist_parse w' = bplist_parse w
      \<and> plist_build w' = plist_build w \<and> prim_get w' = prim_get w)"

section \<open>Two sample machines\<close>

text \<open>
  Concrete values of everything the program reads, on which the theorems below are
  evaluated. The sample parser returns an object that names the parser and its input.
\<close>

definition sample_TermSchemes :: "(string \<times> string) list" where
  "sample_TermSchemes =
     [(''iterm2'', ''iterm2''), (''konsole'', ''konsole''), (''remmina'', ''remmina''),
      (''terminal'', ''terminal''), (''terminator'', ''terminator''),
      (''termite'', ''termite''), (''tilda'', ''tilda''), (''xcfe'', ''xcfe''),
      (''xresources'', ''xresources''), (''xterm'', ''xterm''), (''hyper'', ''hyper'')]"

fun parser_name :: "parser \<Rightarrow> string" where
  "parser_name P_iterm2 = ''iterm2''"
| "parser_name P_konsole = ''konsole''"
| "parser_name P_remmina = ''remmina''"
| "parser_name P_terminal = ''terminal''"
| "parser_name P_terminator = ''terminator''"
| "parser_name P_termite = ''termite''"
| "parser_name P_tilda = ''tilda''"
| "parser_name P_xfce = ''xfce''"
| "parser_name P_xresources = ''xresources''"
| "parser_name P_xterm = ''xterm''"

definition sample_parser :: "parser \<Rightarrow> string \<Rightarrow> error + jsval" where
  "sample_parser prs content =
     Inr (JObj [(''parser'', JStr (parser_name prs)), (''source'', JStr content)])"

definition sample_plist_build :: "jsval \<Rightarrow> error + string" where
  "sample_plist_build v =
     (case v of
        JObj kvs \<Rightarrow> Inr (''<plist>'' @ concat (map fst kvs) @ ''</plist>'')
      | _ \<Rightarrow> Inl (External ''plist.build''))"

definition sample_bplist :: "string \<Rightarrow> error + jsval" where
  "sample_bplist file =
     (if file = ''T'' then
        Inr (JObj [(''Default Window Settings'', JStr ''Pro''),
                   (''Window Settings'', JObj [(''Pro'', JObj [(''name'', JStr ''Pro'')])])])
      else if file = ''I'' then
        Inr (JObj [(''Custom Color Presets'',
                    JObj [(''Solarized'', JObj [(''Ansi 0 Color'', JObj [])])])])
      else Inl (External ''bplist-parser''))"

definition sample_render :: "string \<Rightarrow> render_opts \<Rightarrow> error + string" where
  "sample_render input opts =
     Inr (''<svg '' @
          (case ro_theme opts of
             JObj [(k1, JStr prs), (k2, JStr src)] \<Rightarrow> prs @ '': '' @ src
           | v \<Rightarrow> to_string v) @ ''>'')"

definition linux_world :: world where
  "linux_world =
     \<lparr>platform = ''linux'', TERM_PROGRAM = Some ''iTerm.app'', cwd = ''/home/u'',
      homedir = ''/home/u'',
      fs = (\<lambda>p. if p = ''/home/u'' then Some Dir
                 else if p = ''/home/u/theme.Xresources'' then Some (File ''X'')
                 else if p = ''/etc/theme'' then Some (File ''E'')
                 else None),
      TermSchemes = sample_TermSchemes, run_parser = sample_parser,
      bplist_parse = sample_bplist, plist_build = sample_plist_build,
      prim_get = (\<lambda>v k. JUndefined), render = sample_render\<rparr>"

definition mac_world :: world where
  "mac_world =
     \<lparr>platform = ''darwin'', TERM_PROGRAM = Some ''Apple_Terminal'', cwd = ''/Users/u'',
      homedir = ''/Users/u'',
      fs = (\<lambda>p. if p = ''/Users/u'' then Some Dir
                 else if p = ''/Users/u/Library/Preferences/com.apple.terminal.plist''
                 then Some (File ''T'')
                 else if p = ''/Users/u/Library/Preferences/com.googlecode.iterm2.plist''
                 then Some (File ''I'')
                 else if p = ''/Users/u/theme.Xresources'' then Some (File ''X'')
                 else None),
      TermSchemes = sample_TermSchemes, run_parser = sample_parser,
      bplist_parse = sample_bplist, plist_build = sample_plist_build,
      prim_get = (\<lambda>v k. JUndefined), render = sample_render\<rparr>"

text \<open>The same machine, in a terminal that is not recognised.\<close>

definition mac_other :: world where
  "mac_other = mac_world\<lparr>TERM_PROGRAM := Some ''vscode''\<rparr>"

definition flags_of :: "(string \<times> jsval) list \<Rightarrow> flags" where
  "flags_of kvs = map_of kvs"

text \<open>The members of TermSchemes that getParser names, in the order of its cases.\<close>

definition scheme_members :: "string list" where
  "scheme_members =
     [''iterm2'', ''konsole'', ''remmina'', ''terminal'', ''terminator'', ''termite'',
      ''tilda'', ''xcfe'', ''xresources'', ''xterm'']"

section \<open>Evaluating the sample machines\<close>

lemma js_get_truthy: "truthy c \<Longrightarrow> \<exists>v. js_get w c k = Inr v"
  by (cases c) (simp_all add: js_get_def)

lemma mac_config_iterm2:
  "getConfig mac_world DT_iterm2 =
     Inr (JObj [(''Custom Color Presets'',
                 JObj [(''Solarized'', JObj [(''Ansi 0 Color'', JObj [])])])])"
  by code_simp

lemma mac_guessTerminal: "guessTerminal mac_world = DT_terminal"
  by code_simp

lemma mac_guessProfile_terminal: "guessProfile mac_world DT_terminal = Inr (JStr ''Pro'')"
  by code_simp

lemma other_guessTerminal: "guessTerminal mac_other = JNull"
  by code_simp

lemma other_guessProfile_iterm2: "guessProfile mac_other DT_iterm2 = Inr JNull"
  by code_simp

lemma other_guessProfile_xterm: "guessProfile mac_other (JStr ''xterm'') = Inr JNull"
  by code_simp

section \<open>Shared facts about the steps of main\<close>


lemma isFileProfile_string:
  "isFileProfile (JStr p) = Inr (take 1 p \<in> set [''~'', ''/'', ''.''])"
  by (simp add: isFileProfile_def js_or_def)

lemma checkProfileFile_missing:
  "fl ''profile'' = Some (JStr p) \<Longrightarrow> path_join (cwd w) (JStr p) = Inr checked
   \<Longrightarrow> \<not> existsSync w checked
   \<Longrightarrow> checkProfileFile w fl True = Inl (UsageError (FileNotFound (JStr p)))"
  by (simp add: checkProfileFile_def in_flags_def flag_def)

lemma path_join_string:
  "p \<noteq> [] \<Longrightarrow> path_join d (JStr p) = Inr (normalize (join_slash (filter (\<lambda>x. x \<noteq> []) [d, p])))"
  by (cases "d = []") (simp_all add: path_join_def Let_def)


lemma guessTerminal_truthy:
  "truthy (guessTerminal w) \<longleftrightarrow>
     platform w = ''darwin''
     \<and> (TERM_PROGRAM w = Some ''iTerm.app'' \<or> TERM_PROGRAM w = Some ''Apple_Terminal'')"
  by (simp add: guessTerminal_def)

section \<open>Terminal detection\<close>

text \<open>
  C4. On a platform other than darwin, guessTerminal returns undefined (no terminal)
  whatever TERM_PROGRAM holds. guessTerminal reads the platform and the environment
  only, so it has no error result: it is a total function into the values.
\<close>

theorem guessTerminal_other_platform:
  "platform w \<noteq> ''darwin'' \<Longrightarrow> guessTerminal w = JUndefined \<and> \<not> truthy (guessTerminal w)"
  by (simp add: guessTerminal_def)

theorem guessTerminal_other_platform_witness:
  "platform linux_world \<noteq> ''darwin'' \<and> TERM_PROGRAM linux_world = Some ''iTerm.app''
   \<and> guessTerminal linux_world = JUndefined \<and> \<not> truthy (guessTerminal linux_world)"
  using guessTerminal_other_platform [of linux_world] by (simp add: linux_world_def)

text \<open>
  C3. For iterm2, guessProfile reads the presets of the preference container and then
  falls through to null: whatever the container holds, no default preset is found.
\<close>

theorem guessProfile_iterm2_none:
  "getConfig w DT_iterm2 = Inr config \<Longrightarrow> guessProfile w DT_iterm2 = Inr JNull"
  using js_get_truthy [of config w "''Custom Color Presets''"]
  by (auto simp add: guessProfile_def)

theorem guessProfile_iterm2_none_witness:
  "(\<exists>config. getConfig mac_world DT_iterm2 = Inr config \<and> truthy config)
   \<and> guessProfile mac_world DT_iterm2 = Inr JNull"
  using guessProfile_iterm2_none [OF mac_config_iterm2] mac_config_iterm2 by simp

section \<open>Parser dispatch\<close>

lemma getParser_unknown:
  "trm \<notin> set (map (enum_member (TermSchemes w)) scheme_members)
   \<Longrightarrow> getParser w trm = Inl (UnknownParser trm)"
  by (simp add: getParser_def scheme_members_def)

lemma getParser_Inl_D:
  "getParser w trm = Inl e
   \<Longrightarrow> trm \<notin> set (map (enum_member (TermSchemes w)) scheme_members)"
  unfolding getParser_def scheme_members_def
  by (simp split: if_splits)

text \<open>
  C5. getParser returns a parser for each value of the ten scheme members its switch
  names (iterm2, konsole, remmina, terminal, terminator, termite, tilda, xcfe,
  xresources, xterm), and for every other value it throws the unknown-parser error and
  returns no parser.
\<close>

theorem getParser_dispatch:
  "(trm \<in> set (map (enum_member (TermSchemes w)) scheme_members)
      \<longrightarrow> (\<exists>prs. getParser w trm = Inr prs))
   \<and> (trm \<notin> set (map (enum_member (TermSchemes w)) scheme_members)
      \<longrightarrow> getParser w trm = Inl (UnknownParser trm))"
proof (intro conjI impI)
  assume "trm \<in> set (map (enum_member (TermSchemes w)) scheme_members)"
  then show "\<exists>prs. getParser w trm = Inr prs"
    using getParser_Inl_D [of w trm] by (cases "getParser w trm") auto
next
  assume "trm \<notin> set (map (enum_member (TermSchemes w)) scheme_members)"
  then show "getParser w trm = Inl (UnknownParser trm)" by (rule getParser_unknown)
qed

theorem getParser_dispatch_witness:
  "JStr ''konsole'' \<in> set (map (enum_member (TermSchemes linux_world)) scheme_members)
   \<and> getParser linux_world (JStr ''konsole'') = Inr P_konsole
   \<and> JStr ''xrdb'' \<notin> set (map (enum_member (TermSchemes linux_world)) scheme_members)
   \<and> getParser linux_world (JStr ''xrdb'') = Inl (UnknownParser (JStr ''xrdb''))"
  using getParser_dispatch [of "JStr ''konsole''" linux_world]
    getParser_dispatch [of "JStr ''xrdb''" linux_world]
  by (simp add: getParser_def scheme_members_def enum_member_def linux_world_def
      sample_TermSchemes_def)

section \<open>The resolved pair of term and profile\<close>

text \<open>
  C9. When guessTerminal recognises the terminal (darwin, with TERM_PROGRAM one of the
  two known programs), the resolved term is the detected one whatever the flags hold;
  and when guessProfile finds a default preset for it, the resolved pair is the detected
  pair, so that neither flag appears in it.
\<close>

theorem detected_takes_precedence:
  assumes "platform w = ''darwin''"
    and "TERM_PROGRAM w = Some ''iTerm.app'' \<or> TERM_PROGRAM w = Some ''Apple_Terminal''"
  shows "(\<forall>g. resolveGuess w fl = Inr g \<longrightarrow> g_term g = guessTerminal w)
     \<and> (\<forall>v. guessProfile w (guessTerminal w) = Inr v \<and> truthy v
            \<longrightarrow> resolveGuess w fl = Inr \<lparr>g_term = guessTerminal w, g_profile = v\<rparr>)"
proof -
  have t: "truthy (guessTerminal w)"
    using assms by (simp add: guessTerminal_truthy)
  then have "js_or (guessTerminal w) (flag fl ''term'') = guessTerminal w"
    by (simp add: js_or_def)
  with t show ?thesis
    by (auto simp add: resolveGuess_def js_or_def Let_def split: sum.splits)
qed

text \<open>On the sample Mac, inside Terminal.app, the flags xterm and a theme file are given
  and the resolved pair is the detected one.\<close>

theorem detected_takes_precedence_witness:
  "platform mac_world = ''darwin'' \<and> TERM_PROGRAM mac_world = Some ''Apple_Terminal''
   \<and> flag (flags_of [(''term'', JStr ''xterm''), (''profile'', JStr ''./theme.Xresources'')]) ''term'' = JStr ''xterm''
   \<and> resolveGuess mac_world
        (flags_of [(''term'', JStr ''xterm''), (''profile'', JStr ''./theme.Xresources'')])
       = Inr \<lparr>g_term = DT_terminal, g_profile = JStr ''Pro''\<rparr>"
proof -
  have p: "platform mac_world = ''darwin''" by (simp add: mac_world_def)
  have e: "TERM_PROGRAM mac_world = Some ''Apple_Terminal''" by (simp add: mac_world_def)
  have f: "flag (flags_of [(''term'', JStr ''xterm''), (''profile'', JStr ''./theme.Xresources'')]) ''term'' = JStr ''xterm''"
    by (simp add: flag_def flags_of_def)
  from detected_takes_precedence [OF p disjI2 [OF e]] mac_guessTerminal mac_guessProfile_terminal
  have "resolveGuess mac_world
        (flags_of [(''term'', JStr ''xterm''), (''profile'', JStr ''./theme.Xresources'')])
       = Inr \<lparr>g_term = DT_terminal, g_profile = JStr ''Pro''\<rparr>"
    by simp
  with p e f show ?thesis by simp
qed

text \<open>
  C1, as amended. When both flags are supplied as strings and detection supplies
  neither a terminal nor a default preset for the explicit term (which is always so off
  darwin), the resolved pair is the explicit pair, and getTheme reads the theme from
  them: a profile that begins with a tilde, a slash or a dot is a file parsed by the
  parser of the explicit term, any other profile is a preset looked up under the explicit
  term.
\<close>

theorem explicit_pair_resolution:
  assumes "fl ''term'' = Some (JStr t)"
    and "fl ''profile'' = Some (JStr p)"
    and "\<not> truthy (guessTerminal w)"
    and "guessProfile w (JStr t) = Inr v"
    and "\<not> truthy v"
  shows "resolveGuess w fl = Inr \<lparr>g_term = JStr t, g_profile = JStr p\<rparr>
     \<and> getTheme w \<lparr>g_term = JStr t, g_profile = JStr p\<rparr>
         = (if take 1 p \<in> set [''~'', ''/'', ''.''] then parseTheme w (JStr t) (JStr p)
            else extractTheme w (JStr t) (JStr p))"
proof
  have "js_or (guessTerminal w) (flag fl ''term'') = JStr t"
    using assms(1,3) by (simp add: js_or_def flag_def)
  moreover have "js_or v (flag fl ''profile'') = JStr p"
    using assms(2,5) by (simp add: js_or_def flag_def)
  moreover have "flag fl ''profile'' = JStr p"
    using assms(2) by (simp add: flag_def)
  ultimately show "resolveGuess w fl = Inr \<lparr>g_term = JStr t, g_profile = JStr p\<rparr>"
    using assms(4) by (simp add: resolveGuess_def Let_def)
next
  show "getTheme w \<lparr>g_term = JStr t, g_profile = JStr p\<rparr>
         = (if take 1 p \<in> set [''~'', ''/'', ''.''] then parseTheme w (JStr t) (JStr p)
            else extractTheme w (JStr t) (JStr p))"
    by (simp add: getTheme_def isFileProfile_string)
qed

theorem explicit_pair_resolution_witness:
  "resolveGuess mac_other (flags_of [(''term'', DT_iterm2), (''profile'', JStr ''Solarized'')])
       = Inr \<lparr>g_term = DT_iterm2, g_profile = JStr ''Solarized''\<rparr>
   \<and> getTheme mac_other \<lparr>g_term = DT_iterm2, g_profile = JStr ''Solarized''\<rparr>
       = extractTheme mac_other DT_iterm2 (JStr ''Solarized'')
   \<and> extractTheme mac_other DT_iterm2 (JStr ''Solarized'')
       = Inr (JObj [(''parser'', JStr ''iterm2''), (''source'', JStr ''<plist>Ansi 0 Color</plist>'')])
   \<and> getTheme mac_other \<lparr>g_term = JStr ''xterm'', g_profile = JStr ''./theme.Xresources''\<rparr>
       = parseTheme mac_other (JStr ''xterm'') (JStr ''./theme.Xresources'')
   \<and> parseTheme mac_other (JStr ''xterm'') (JStr ''./theme.Xresources'')
       = Inr (JObj [(''parser'', JStr ''xterm''), (''source'', JStr ''X'')])"
proof -
  let ?a = "flags_of [(''term'', DT_iterm2), (''profile'', JStr ''Solarized'')]"
  let ?b = "flags_of [(''term'', JStr ''xterm''), (''profile'', JStr ''./theme.Xresources'')]"
  have n: "\<not> truthy (guessTerminal mac_other)"
    by (simp add: other_guessTerminal)
  have z: "\<not> truthy JNull" by simp
  have a: "?a ''term'' = Some DT_iterm2" "?a ''profile'' = Some (JStr ''Solarized'')"
    by (simp_all add: flags_of_def)
  have b: "?b ''term'' = Some (JStr ''xterm'')" "?b ''profile'' = Some (JStr ''./theme.Xresources'')"
    by (simp_all add: flags_of_def)
  have e: "extractTheme mac_other DT_iterm2 (JStr ''Solarized'')
       = Inr (JObj [(''parser'', JStr ''iterm2''), (''source'', JStr ''<plist>Ansi 0 Color</plist>'')])"
    by code_simp
  have q: "parseTheme mac_other (JStr ''xterm'') (JStr ''./theme.Xresources'')
       = Inr (JObj [(''parser'', JStr ''xterm''), (''source'', JStr ''X'')])"
    by code_simp
  from explicit_pair_resolution [OF a n other_guessProfile_iterm2 z]
    explicit_pair_resolution [OF b n other_guessProfile_xterm z] e q
  show ?thesis by simp
qed

text \<open>
  C1 as stated fails: on the sample Mac, inside Terminal.app with the default preset
  Pro, the flags xterm and ./theme.Xresources are both supplied, yet the resolved pair is
  (terminal, Pro) and the theme is the preset Pro, not the parsed file.
\<close>

theorem explicit_pair_overridden:
  "flags_of [(''term'', JStr ''xterm''), (''profile'', JStr ''./theme.Xresources'')] ''term''
       = Some (JStr ''xterm'')
   \<and> flags_of [(''term'', JStr ''xterm''), (''profile'', JStr ''./theme.Xresources'')] ''profile''
       = Some (JStr ''./theme.Xresources'')
   \<and> resolveGuess mac_world
        (flags_of [(''term'', JStr ''xterm''), (''profile'', JStr ''./theme.Xresources'')])
       = Inr \<lparr>g_term = DT_terminal, g_profile = JStr ''Pro''\<rparr>
   \<and> parseTheme mac_world (JStr ''xterm'') (JStr ''./theme.Xresources'')
       = Inr (JObj [(''parser'', JStr ''xterm''), (''source'', JStr ''X'')])
   \<and> getTheme mac_world \<lparr>g_term = DT_terminal, g_profile = JStr ''Pro''\<rparr>
       = Inr (JObj [(''parser'', JStr ''terminal''), (''source'', JStr ''<plist>name</plist>'')])
   \<and> main mac_world
        (flags_of [(''term'', JStr ''xterm''), (''profile'', JStr ''./theme.Xresources'')]) ''rec''
       = Inr (Stdout ''<svg terminal: <plist>name</plist>>'')"
proof -
  let ?fl = "flags_of [(''term'', JStr ''xterm''), (''profile'', JStr ''./theme.Xresources'')]"
  have a: "?fl ''term'' = Some (JStr ''xterm'')" "?fl ''profile'' = Some (JStr ''./theme.Xresources'')"
    by (simp_all add: flags_of_def)
  have r: "resolveGuess mac_world ?fl = Inr \<lparr>g_term = DT_terminal, g_profile = JStr ''Pro''\<rparr>"
    by code_simp
  have q: "parseTheme mac_world (JStr ''xterm'') (JStr ''./theme.Xresources'')
       = Inr (JObj [(''parser'', JStr ''xterm''), (''source'', JStr ''X'')])"
    by code_simp
  have g: "getTheme mac_world \<lparr>g_term = DT_terminal, g_profile = JStr ''Pro''\<rparr>
       = Inr (JObj [(''parser'', JStr ''terminal''), (''source'', JStr ''<plist>name</plist>'')])"
    by code_simp
  have v: "main mac_world ?fl ''rec'' = Inr (Stdout ''<svg terminal: <plist>name</plist>>'')"
    by code_simp
  from a r q g v show ?thesis by simp
qed

section \<open>Validation of the flags\<close>




text \<open>
  C6, as amended. When the profile flag is a string that begins with a tilde, a slash
  or a dot, it is the resolved profile (no detected default preset has taken its place),
  and nothing exists at the current directory joined with it, the run ends in a usage
  error before the theme is parsed or anything is rendered; when the earlier checks pass
  (input there, numeric height and width, a term that is present and a key of
  TermSchemes), it is the error that cites the profile.
\<close>

theorem missing_profile_file_usage_error:
  assumes "fl ''profile'' = Some (JStr p)"
    and "take 1 p \<in> set [''~'', ''/'', ''.'']"
    and "resolveGuess w fl = Inr g"
    and "g_profile g = JStr p"
    and "path_join (cwd w) (JStr p) = Inr checked"
    and "\<not> existsSync w checked"
  shows "(\<exists>u. main w fl input = Inl (UsageError u))
     \<and> (input \<noteq> [] \<and> malformed fl = [] \<and> truthy (g_term g) \<and> \<not> unknown w fl
          \<longrightarrow> main w fl input = Inl (UsageError (FileNotFound (JStr p))))"
proof -
  have i: "isFileProfile (g_profile g) = Inr True"
    using assms(2,4) by (simp add: isFileProfile_string)
  have c: "checkProfileFile w fl True = Inl (UsageError (FileNotFound (JStr p)))"
    using assms(1,5,6) by (rule checkProfileFile_missing)
  have pt: "truthy (g_profile g)"
    using assms(2,4) by auto
  have m: "input \<noteq> [] \<Longrightarrow> malformed fl = [] \<Longrightarrow> truthy (g_term g) \<Longrightarrow> \<not> unknown w fl
      \<Longrightarrow> main w fl input = Inl (UsageError (FileNotFound (JStr p)))"
    using assms(3) i c pt by (simp add: main_def unsatisfied_def)
  have "\<exists>u. main w fl input = Inl (UsageError u)"
  proof (cases "input \<noteq> [] \<and> malformed fl = [] \<and> truthy (g_term g) \<and> \<not> unknown w fl")
    case True
    then show ?thesis using m by simp
  next
    case False
    then show ?thesis
      using assms(1,3) pt by (auto simp add: main_def unsatisfied_def in_flags_def)
  qed
  with m show ?thesis by blast
qed

theorem missing_profile_file_usage_error_witness:
  "isFileProfile (JStr ''./missing-file.txt'') = Inr True
   \<and> path_join (cwd linux_world) (JStr ''./missing-file.txt'') = Inr ''/home/u/missing-file.txt''
   \<and> \<not> existsSync linux_world ''/home/u/missing-file.txt''
   \<and> main linux_world
        (flags_of [(''term'', JStr ''xterm''), (''profile'', JStr ''./missing-file.txt'')]) ''rec''
       = Inl (UsageError (FileNotFound (JStr ''./missing-file.txt'')))"
proof -
  let ?fl = "flags_of [(''term'', JStr ''xterm''), (''profile'', JStr ''./missing-file.txt'')]"
  let ?g = "\<lparr>g_term = JStr ''xterm'', g_profile = JStr ''./missing-file.txt''\<rparr>"
  have f: "?fl ''profile'' = Some (JStr ''./missing-file.txt'')"
    by (simp add: flags_of_def)
  have t: "take 1 ''./missing-file.txt'' \<in> set [''~'', ''/'', ''.'']" by simp
  have r: "resolveGuess linux_world ?fl = Inr ?g" by code_simp
  have j: "path_join (cwd linux_world) (JStr ''./missing-file.txt'') = Inr ''/home/u/missing-file.txt''"
    by code_simp
  have x: "\<not> existsSync linux_world ''/home/u/missing-file.txt''" by code_simp
  have m: "malformed ?fl = []" by code_simp
  have k: "\<not> unknown linux_world ?fl" by code_simp
  have i: "isFileProfile (JStr ''./missing-file.txt'') = Inr True" by code_simp
  from missing_profile_file_usage_error [OF f t r _ j x, of "''rec''"] m k
  have "main linux_world ?fl ''rec'' = Inl (UsageError (FileNotFound (JStr ''./missing-file.txt'')))"
    by simp
  with i j x show ?thesis by simp
qed

text \<open>
  C6 as stated fails: on the sample Mac, inside Terminal.app with the default preset
  Pro, the profile flag ./missing-file.txt names no file, yet the run succeeds: the
  detected profile Pro is the resolved one, it does not look like a path, and the file
  is never checked.
\<close>

theorem missing_profile_file_ignored_when_detected:
  "flags_of [(''term'', JStr ''terminal''), (''profile'', JStr ''./missing-file.txt'')] ''profile''
       = Some (JStr ''./missing-file.txt'')
   \<and> isFileProfile (JStr ''./missing-file.txt'') = Inr True
   \<and> path_join (cwd mac_world) (JStr ''./missing-file.txt'') = Inr ''/Users/u/missing-file.txt''
   \<and> existsSync mac_world ''/Users/u/missing-file.txt'' = False
   \<and> existsSync mac_world ''./missing-file.txt'' = False
   \<and> main mac_world
        (flags_of [(''term'', JStr ''terminal''), (''profile'', JStr ''./missing-file.txt'')]) ''rec''
       = Inr (Stdout ''<svg terminal: <plist>name</plist>>'')"
proof -
  let ?fl = "flags_of [(''term'', JStr ''terminal''), (''profile'', JStr ''./missing-file.txt'')]"
  have f: "?fl ''profile'' = Some (JStr ''./missing-file.txt'')"
    by (simp add: flags_of_def)
  have i: "isFileProfile (JStr ''./missing-file.txt'') = Inr True" by code_simp
  have j: "path_join (cwd mac_world) (JStr ''./missing-file.txt'') = Inr ''/Users/u/missing-file.txt''"
    by code_simp
  have x: "existsSync mac_world ''/Users/u/missing-file.txt'' = False" by code_simp
  have y: "existsSync mac_world ''./missing-file.txt'' = False" by code_simp
  have v: "main mac_world ?fl ''rec'' = Inr (Stdout ''<svg terminal: <plist>name</plist>>'')"
    by code_simp
  from f i j x y v show ?thesis by simp
qed

text \<open>
  C10. The existence check of a path-like profile flag tests the current directory
  joined with the flag, also when the flag begins with a slash or a tilde. So there is a
  run whose profile flag is the absolute path of a file that can be read, and which
  still ends in the missing-file usage error.
\<close>

theorem profile_check_joins_cwd:
  "(fl ''profile'' = Some (JStr p) \<and> p \<noteq> [] \<and> cwd w \<noteq> []
      \<longrightarrow> checkProfileFile w fl True
          = (if existsSync w (normalize (cwd w @ ''/'' @ p)) then Inr ()
             else Inl (UsageError (FileNotFound (JStr p)))))
   \<and> (\<exists>w' fl' input content.
         fl' ''profile'' = Some (JStr ''/etc/theme'')
         \<and> readFileSync w' ''/etc/theme'' = Inr content
         \<and> main w' fl' input = Inl (UsageError (FileNotFound (JStr ''/etc/theme''))))"
proof (intro conjI impI)
  assume a: "fl ''profile'' = Some (JStr p) \<and> p \<noteq> [] \<and> cwd w \<noteq> []"
  then have "path_join (cwd w) (JStr p) = Inr (normalize (cwd w @ ''/'' @ p))"
    by (simp add: path_join_string)
  with a show "checkProfileFile w fl True
          = (if existsSync w (normalize (cwd w @ ''/'' @ p)) then Inr ()
             else Inl (UsageError (FileNotFound (JStr p))))"
    by (simp add: checkProfileFile_def in_flags_def flag_def)
next
  let ?fl = "flags_of [(''term'', JStr ''xterm''), (''profile'', JStr ''/etc/theme'')]"
  have "?fl ''profile'' = Some (JStr ''/etc/theme'')"
    by (simp add: flags_of_def)
  moreover have "readFileSync linux_world ''/etc/theme'' = Inr ''E''"
    by code_simp
  moreover have "main linux_world ?fl ''rec'' = Inl (UsageError (FileNotFound (JStr ''/etc/theme'')))"
    by code_simp
  ultimately show "\<exists>w' fl' input content.
         fl' ''profile'' = Some (JStr ''/etc/theme'')
         \<and> readFileSync w' ''/etc/theme'' = Inr content
         \<and> main w' fl' input = Inl (UsageError (FileNotFound (JStr ''/etc/theme'')))"
    by blast
qed

theorem profile_check_joins_cwd_witness:
  "flags_of [(''term'', JStr ''xterm''), (''profile'', JStr ''/etc/theme'')] ''profile''
       = Some (JStr ''/etc/theme'')
   \<and> normalize (cwd linux_world @ ''/'' @ ''/etc/theme'') = ''/home/u/etc/theme''
   \<and> existsSync linux_world ''/etc/theme''
   \<and> existsSync linux_world ''/home/u/etc/theme'' = False
   \<and> checkProfileFile linux_world
        (flags_of [(''term'', JStr ''xterm''), (''profile'', JStr ''/etc/theme'')]) True
       = Inl (UsageError (FileNotFound (JStr ''/etc/theme'')))"
proof -
  let ?fl = "flags_of [(''term'', JStr ''xterm''), (''profile'', JStr ''/etc/theme'')]"
  have f: "?fl ''profile'' = Some (JStr ''/etc/theme'')"
    by (simp add: flags_of_def)
  have c: "cwd linux_world \<noteq> []" by (simp add: linux_world_def)
  have n: "normalize (cwd linux_world @ ''/'' @ ''/etc/theme'') = ''/home/u/etc/theme''"
    by code_simp
  have x: "existsSync linux_world ''/etc/theme''" by code_simp
  have y: "existsSync linux_world ''/home/u/etc/theme'' = False" by code_simp
  from profile_check_joins_cwd [of ?fl "''/etc/theme''" linux_world] f c n x y
  show ?thesis by simp
qed

section \<open>Named presets\<close>

text \<open>A name that the presets neither hold nor inherit gives no theme.\<close>

lemma extractTheme_absent:
  assumes "platform w = ''darwin''"
    and "trm = DT_iterm2 \<or> trm = DT_terminal"
    and "getPresets w trm = Inr (JObj presets)"
    and "map_of presets (to_string name) = None"
    and "to_string name \<notin> set object_prototype_keys"
    and "getParser w trm = Inr prs"
  shows "extractTheme w trm name = Inr JNull"
proof -
  have "js_in trm DetectableTerminals"
    using assms(2) by (auto simp add: js_in_def DetectableTerminals_def)
  moreover have "to_string name \<noteq> ''__proto__''"
    using assms(5) by (auto simp add: object_prototype_keys_def)
  ultimately have "js_in trm DetectableTerminals"
    and "js_get w (JObj presets) (to_string name) = Inr JUndefined"
    using assms(4,5) by (simp_all add: js_get_def)
  then show ?thesis
    using assms(1,3,6) by (simp add: extractTheme_def)
qed

text \<open>
  C7. A preset name missing from the presets is meant to give null. For the name
  constructor, which no preset carries but every object inherits, the lookup
  \<^verbatim>\<open>presets[name]\<close> finds the inherited member, the test \<^verbatim>\<open>!theme\<close> does not
  fire, and extractTheme hands the member to plist.build and the parser.
\<close>

theorem extractTheme_inherited_member:
  assumes "platform w = ''darwin''"
    and "getPresets w DT_iterm2 = Inr (JObj presets)"
    and "map_of presets ''constructor'' = None"
    and "getParser w DT_iterm2 = Inr prs"
  shows "extractTheme w DT_iterm2 (JStr ''constructor'')
     = (case plist_build w (JBuiltin ''constructor'') of
          Inl e \<Rightarrow> Inl e
        | Inr xml \<Rightarrow> run_parser w prs xml)"
proof -
  have "js_in DT_iterm2 DetectableTerminals"
    by (simp add: js_in_def DetectableTerminals_def)
  moreover have "js_get w (JObj presets) ''constructor'' = Inr (JBuiltin ''constructor'')"
    using assms(3) by (simp add: js_get_def object_prototype_keys_def)
  ultimately show ?thesis
    using assms(1,2,4) by (simp add: extractTheme_def)
qed

theorem extractTheme_inherited_member_witness:
  "platform mac_other = ''darwin''
   \<and> getPresets mac_other DT_iterm2
       = Inr (JObj [(''Solarized'', JObj [(''Ansi 0 Color'', JObj [])])])
   \<and> map_of [(''Solarized'', JObj [(''Ansi 0 Color'', JObj [])])] ''constructor'' = None
   \<and> extractTheme mac_other DT_iterm2 (JStr ''constructor'') = Inl (External ''plist.build'')
   \<and> extractTheme mac_other DT_iterm2 (JStr ''Nord'') = Inr JNull
   \<and> main mac_other (flags_of [(''term'', DT_iterm2), (''profile'', JStr ''constructor'')]) ''rec''
       = Inl (External ''plist.build'')"
proof -
  have p: "platform mac_other = ''darwin''" by code_simp
  have g: "getPresets mac_other DT_iterm2
       = Inr (JObj [(''Solarized'', JObj [(''Ansi 0 Color'', JObj [])])])"
    by code_simp
  have m: "map_of [(''Solarized'', JObj [(''Ansi 0 Color'', JObj [])])] ''constructor'' = None"
    by simp
  have q: "getParser mac_other DT_iterm2 = Inr P_iterm2" by code_simp
  have b: "plist_build mac_other (JBuiltin ''constructor'') = Inl (External ''plist.build'')"
    by code_simp
  have n: "extractTheme mac_other DT_iterm2 (JStr ''Nord'') = Inr JNull" by code_simp
  have v: "main mac_other (flags_of [(''term'', DT_iterm2), (''profile'', JStr ''constructor'')]) ''rec''
       = Inl (External ''plist.build'')"
    by code_simp
  from extractTheme_inherited_member [OF p g m q] b
  have "extractTheme mac_other DT_iterm2 (JStr ''constructor'') = Inl (External ''plist.build'')"
    by simp
  with p g m n v show ?thesis by simp
qed

section \<open>Resolution evaluated twice\<close>

text \<open>Each function with the machine threaded through returns what the function above
  returns, and the machine it was given.\<close>

lemma getConfig_st_pure: "getConfig_st trm w = (getConfig w trm, w)"
  by (simp add: getConfig_st_def getConfig_def read_config_def bind_st_def
      sander_readFileSync_home_def bplistParser_parseBuffer_def return_st_def
      split: sum.splits)

lemma getPresets_st_pure: "getPresets_st trm w = (getPresets w trm, w)"
  by (simp add: getPresets_st_def getPresets_def bind_st_def getConfig_st_pure
      js_get_st_def return_st_def split: sum.splits)

lemma guessProfile_st_pure: "guessProfile_st trm w = (guessProfile w trm, w)"
  by (simp add: guessProfile_st_def guessProfile_def bind_st_def os_platform_def
      getConfig_st_pure js_get_st_def return_st_def split: sum.splits)

lemma guessTerminal_st_pure: "guessTerminal_st w = (Inr (guessTerminal w), w)"
  by (simp add: guessTerminal_st_def guessTerminal_def bind_st_def os_platform_def
      process_env_TERM_PROGRAM_def return_st_def)

lemma parseTheme_st_pure: "parseTheme_st trm input w = (parseTheme w trm input, w)"
  by (simp add: parseTheme_st_def parseTheme_def bind_st_def getParser_st_def
      fs_readFileSync_def run_parser_st_def throw_st_def split: sum.splits jsval.splits)

lemma extractTheme_st_pure: "extractTheme_st trm name w = (extractTheme w trm name, w)"
  by (simp add: extractTheme_st_def extractTheme_def bind_st_def os_platform_def
      getPresets_st_pure js_get_st_def getParser_st_def plist_build_st_def run_parser_st_def
      return_st_def split: sum.splits)

lemma getTheme_st_pure: "getTheme_st guess w = (getTheme w guess, w)"
  by (simp add: getTheme_st_def getTheme_def parseTheme_st_pure extractTheme_st_pure
      return_st_def throw_st_def split: sum.splits)

lemma resolveGuess_st_pure: "resolveGuess_st fl w = (resolveGuess w fl, w)"
  by (simp add: resolveGuess_st_def resolveGuess_def bind_st_def guessTerminal_st_pure
      guessProfile_st_pure return_st_def Let_def split: sum.splits)

lemma resolve_st_pure:
  "resolve_st fl w =
     ((case resolveGuess w fl of Inl e \<Rightarrow> Inl e | Inr guess \<Rightarrow> getTheme w guess), w)"
  by (simp add: resolve_st_def bind_st_def resolveGuess_st_pure getTheme_st_pure
      split: sum.splits)

lemma same_snapshot_reads:
  assumes "same_snapshot w w'"
  shows "resolveGuess w' fl = resolveGuess w fl" and "getTheme w' guess = getTheme w guess"
proof -
  have a: "platform w' = platform w" "TERM_PROGRAM w' = TERM_PROGRAM w" "cwd w' = cwd w"
    "homedir w' = homedir w" "fs w' = fs w" "TermSchemes w' = TermSchemes w"
    "run_parser w' = run_parser w" "bplist_parse w' = bplist_parse w"
    "plist_build w' = plist_build w" "prim_get w' = prim_get w"
    using assms by (simp_all add: same_snapshot_def)
  have g: "js_get w' = js_get w"
    by (intro ext) (unfold js_get_def a(10), rule refl)
  have r: "readFileSync w' = readFileSync w"
    by (intro ext) (unfold readFileSync_def fs_stat_def a(3,5), rule refl)
  have c: "getConfig w' = getConfig w"
    by (intro ext) (unfold getConfig_def read_config_def r a(4,8), rule refl)
  have p: "getParser w' = getParser w"
    by (intro ext) (unfold getParser_def a(6), rule refl)
  have gp: "guessProfile w' = guessProfile w"
    by (intro ext) (unfold guessProfile_def c g a(1), rule refl)
  have gt: "guessTerminal w' = guessTerminal w"
    by (unfold guessTerminal_def a(1,2), rule refl)
  have pr: "getPresets w' = getPresets w"
    by (intro ext) (unfold getPresets_def c g, rule refl)
  have pt: "parseTheme w' = parseTheme w"
    by (intro ext) (unfold parseTheme_def p r a(7), rule refl)
  have et: "extractTheme w' = extractTheme w"
    by (intro ext) (unfold extractTheme_def p pr g a(1,7,9), rule refl)
  show "resolveGuess w' fl = resolveGuess w fl"
    by (unfold resolveGuess_def gt gp, rule refl)
  show "getTheme w' guess = getTheme w guess"
    by (unfold getTheme_def pt et, rule refl)
qed

text \<open>
  C8. Evaluating the resolver twice in a row gives the same result both times and
  leaves the machine as it was: resolveGuess, getTheme and the two in sequence only read.
  The result is the value of the pure function on the machine, so any later evaluation
  on a machine with the same snapshot (platform, TERM_PROGRAM, current and home
  directory, file system, scheme enum, libraries) gives that result again.
\<close>

theorem resolution_twice_same:
  assumes "same_snapshot w w2"
  shows "twice (resolveGuess_st fl) w = (resolveGuess w fl, resolveGuess w fl, w)
     \<and> fst (resolveGuess_st fl w2) = resolveGuess w fl
     \<and> twice (getTheme_st guess) w = (getTheme w guess, getTheme w guess, w)
     \<and> fst (getTheme_st guess w2) = getTheme w guess
     \<and> (\<exists>r. twice (resolve_st fl) w = (r, r, w) \<and> fst (resolve_st fl w2) = r)"
  using same_snapshot_reads [OF assms]
  by (simp add: twice_def resolveGuess_st_pure getTheme_st_pure resolve_st_pure
      cong: sum.case_cong)

text \<open>On the sample Linux machine the theme file is parsed to the same theme twice; once
  \<^verbatim>\<open>sander.writeFile\<close> has replaced the file, the file system is another one and so
  is the theme.\<close>

theorem resolution_twice_same_witness:
  "same_snapshot linux_world (linux_world\<lparr>render := (\<lambda>i opts. Inl (External ''render''))\<rparr>)
   \<and> twice (getTheme_st \<lparr>g_term = JStr ''xterm'', g_profile = JStr ''./theme.Xresources''\<rparr>)
        linux_world
       = (Inr (JObj [(''parser'', JStr ''xterm''), (''source'', JStr ''X'')]),
          Inr (JObj [(''parser'', JStr ''xterm''), (''source'', JStr ''X'')]), linux_world)
   \<and> fst (getTheme_st \<lparr>g_term = JStr ''xterm'', g_profile = JStr ''./theme.Xresources''\<rparr>
        (linux_world\<lparr>render := (\<lambda>i opts. Inl (External ''render''))\<rparr>))
       = Inr (JObj [(''parser'', JStr ''xterm''), (''source'', JStr ''X'')])
   \<and> fst (getTheme_st \<lparr>g_term = JStr ''xterm'', g_profile = JStr ''./theme.Xresources''\<rparr>
        (snd (sander_writeFile ''./theme.Xresources'' ''Y'' linux_world)))
       = Inr (JObj [(''parser'', JStr ''xterm''), (''source'', JStr ''Y'')])"
proof -
  let ?g = "\<lparr>g_term = JStr ''xterm'', g_profile = JStr ''./theme.Xresources''\<rparr>"
  let ?w2 = "linux_world\<lparr>render := (\<lambda>i opts. Inl (External ''render''))\<rparr>"
  have s: "same_snapshot linux_world ?w2"
    by (simp add: same_snapshot_def)
  have v: "getTheme linux_world ?g = Inr (JObj [(''parser'', JStr ''xterm''), (''source'', JStr ''X'')])"
    by code_simp
  have c: "fst (getTheme_st ?g (snd (sander_writeFile ''./theme.Xresources'' ''Y'' linux_world)))
       = Inr (JObj [(''parser'', JStr ''xterm''), (''source'', JStr ''Y'')])"
    by code_simp
  from resolution_twice_same [OF s, of _ ?g] s v c show ?thesis by simp
qed

end
